theory Spec2Isabelle
  imports Main
begin

section \<open>The outside world of \<open>manage_helm_charts.py\<close>\<close>

text \<open>
  The program talks to two external systems: the Artifact Hub HTTP API (through
  \<open>requests.Session.get\<close>) and the \<open>helm\<close> binary (through \<open>subprocess.run\<close>); it
  writes to standard output with \<open>print\<close>. Each of these effects is an event, and every
  operation threads the list of events issued so far (the trace) and returns it extended.
  What the outside world answers is a parameter: it may depend on everything that
  happened before, so the answers are functions of the trace.
\<close>

datatype json =
    JNull
  | JBool bool
  | JInt int
  | JFloat string
  | JStr string
  | JArr "json list"
  | JObj "(string \<times> json) list"

text \<open>
  \<open>JObj\<close> holds the items of the parsed \<open>dict\<close>; a key is looked up with \<open>map_of\<close>.
  \<open>JFloat\<close> carries the literal as the body spells it.
\<close>

datatype exn =
    ValueError
  | RequestException
  | HTTPError int
  | JSONDecodeError
  | AttributeError
  | TypeError
  | KeyError
  | OSError
  | CalledProcessError "string list" int
  | Exception string

type_synonym params = "(string \<times> string) list"

datatype event =
    HttpGet string "params option"
  | Run "string list" bool
  | Print string

type_synonym trace = "event list"

record http_response =
  status_code :: int
  json_body :: "json option"

datatype http_result = Transport_failure | Reply http_response

record completed_process =
  returncode :: int
  stdout :: string

datatype proc_result = Spawn_failure | Completed completed_process

record env =
  http_get :: "trace \<Rightarrow> string \<Rightarrow> params option \<Rightarrow> http_result"
  run_proc :: "trace \<Rightarrow> string list \<Rightarrow> bool \<Rightarrow> proc_result"
  lib_str :: "exn \<Rightarrow> string"
  repr_json :: "json \<Rightarrow> string"

text \<open>
  \<open>json_body\<close> is what \<open>response.json()\<close> parses the body to (\<open>None\<close> when the body is
  not JSON). \<open>lib_str\<close> is \<open>str(e)\<close> for the exceptions that Python and its libraries
  raise, \<open>repr_json\<close> is \<open>str(v)\<close> for a parsed value that is not a \<open>str\<close>: both texts
  are fixed outside this repository.
\<close>

section \<open>Python primitives used by the program\<close>

definition str_exn :: "env \<Rightarrow> exn \<Rightarrow> string" where
  "str_exn env e = (case e of Exception m \<Rightarrow> m | _ \<Rightarrow> lib_str env e)"

text \<open>\<open>s.split(sep)\<close> for a separator of one character.\<close>

fun split_str :: "'a \<Rightarrow> 'a list \<Rightarrow> 'a list list" where
  "split_str sep [] = [[]]"
| "split_str sep (c # cs) =
     (if c = sep then [] # split_str sep cs
      else (case split_str sep cs of
              [] \<Rightarrow> [[c]]
            | p # ps \<Rightarrow> (c # p) # ps))"

text \<open>Truthiness of an \<open>Optional[str]\<close>: \<open>None\<close> and the empty string are false.\<close>

definition truthy :: "string option \<Rightarrow> bool" where
  "truthy v = (case v of None \<Rightarrow> False | Some s \<Rightarrow> s \<noteq> [])"

text \<open>\<open>v[k]\<close> with a string key \<open>k\<close>.\<close>

definition py_item :: "json \<Rightarrow> string \<Rightarrow> exn + json" where
  "py_item v k =
     (case v of
        JObj kvs \<Rightarrow> (case map_of kvs k of None \<Rightarrow> Inl KeyError | Some x \<Rightarrow> Inr x)
      | _ \<Rightarrow> Inl TypeError)"

text \<open>\<open>v.get(k, d)\<close>: only a \<open>dict\<close> has the method.\<close>

definition py_get :: "json \<Rightarrow> string \<Rightarrow> json \<Rightarrow> exn + json" where
  "py_get v k d =
     (case v of
        JObj kvs \<Rightarrow> Inr (case map_of kvs k of None \<Rightarrow> d | Some x \<Rightarrow> x)
      | _ \<Rightarrow> Inl AttributeError)"

text \<open>
  \<open>v[:5]\<close>: the first five elements of a list, the first five characters of a string
  (each a string of length one); a number, \<open>None\<close> or a \<open>dict\<close> cannot be sliced
  (a \<open>dict\<close> raises \<open>TypeError\<close> up to CPython 3.11 and \<open>KeyError\<close> from 3.12 on; both
  are caught alike).
\<close>

definition py_slice5 :: "json \<Rightarrow> exn + json list" where
  "py_slice5 v =
     (case v of
        JArr xs \<Rightarrow> Inr (take 5 xs)
      | JStr s \<Rightarrow> Inr (map (\<lambda>c. JStr [c]) (take 5 s))
      | _ \<Rightarrow> Inl TypeError)"

text \<open>A value inside an f-string: \<open>str(v)\<close>.\<close>

definition format_value :: "env \<Rightarrow> json \<Rightarrow> string" where
  "format_value env v = (case v of JStr s \<Rightarrow> s | _ \<Rightarrow> repr_json env v)"

definition session_get ::
  "env \<Rightarrow> string \<Rightarrow> params option \<Rightarrow> trace \<Rightarrow> (exn + http_response) \<times> trace" where
  "session_get env url ps t =
     (case http_get env t url ps of
        Transport_failure \<Rightarrow> (Inl RequestException, t @ [HttpGet url ps])
      | Reply r \<Rightarrow> (Inr r, t @ [HttpGet url ps]))"

definition raise_for_status :: "http_response \<Rightarrow> exn + unit" where
  "raise_for_status r =
     (if 400 \<le> status_code r \<and> status_code r < 600
      then Inl (HTTPError (status_code r)) else Inr ())"

definition response_json :: "http_response \<Rightarrow> exn + json" where
  "response_json r = (case json_body r of None \<Rightarrow> Inl JSONDecodeError | Some j \<Rightarrow> Inr j)"

text \<open>
  \<open>subprocess.run(cmd, check=True)\<close>, with \<open>capture_output=True, text=True\<close> when
  \<open>capture\<close> is set.
\<close>

definition subprocess_run ::
  "env \<Rightarrow> string list \<Rightarrow> bool \<Rightarrow> trace \<Rightarrow> (exn + completed_process) \<times> trace" where
  "subprocess_run env cmd capture t =
     (case run_proc env t cmd capture of
        Spawn_failure \<Rightarrow> (Inl OSError, t @ [Run cmd capture])
      | Completed p \<Rightarrow>
          (if returncode p \<noteq> 0 then Inl (CalledProcessError cmd (returncode p)) else Inr p,
           t @ [Run cmd capture]))"

text \<open>
  \<open>except subprocess.CalledProcessError as e: raise Exception(f"<prefix>{str(e)}")\<close>:
  any other exception passes through.
\<close>

definition reraise :: "env \<Rightarrow> string \<Rightarrow> exn \<Rightarrow> exn" where
  "reraise env prefix e =
     (case e of
        CalledProcessError c rc \<Rightarrow> Exception (prefix @ str_exn env e)
      | _ \<Rightarrow> e)"

section \<open>\<open>HelmChartManager\<close>\<close>

definition ARTIFACT_HUB_API :: string where
  "ARTIFACT_HUB_API = ''https://artifacthub.io/api/v1''"

definition search_params :: "string \<Rightarrow> params" where
  "search_params keyword =
     [(''kind'', ''0''), (''ts_query'', keyword), (''sort'', ''relevance'')]"

definition search_charts :: "env \<Rightarrow> string \<Rightarrow> trace \<Rightarrow> (exn + json) \<times> trace" where
  "search_charts env keyword t =
     (case session_get env (ARTIFACT_HUB_API @ ''/packages/search'')
             (Some (search_params keyword)) t of
        (Inl e, t1) \<Rightarrow> (Inl e, t1)
      | (Inr response, t1) \<Rightarrow>
          (case raise_for_status response of
             Inl e \<Rightarrow> (Inl e, t1)
           | Inr _ \<Rightarrow>
               (case response_json response of
                  Inl e \<Rightarrow> (Inl e, t1)
                | Inr body \<Rightarrow> (py_get body ''packages'' (JArr []), t1))))"

definition get_chart_details :: "env \<Rightarrow> string \<Rightarrow> trace \<Rightarrow> (exn + json) \<times> trace" where
  "get_chart_details env name t =
     (case split_str (CHR ''/'') name of
        [repo, chart] \<Rightarrow>
          (case session_get env
                  (ARTIFACT_HUB_API @ ''/packages/helm/'' @ repo @ ''/'' @ chart) None t of
             (Inl e, t1) \<Rightarrow> (Inl e, t1)
           | (Inr response, t1) \<Rightarrow>
               (case raise_for_status response of
                  Inl e \<Rightarrow> (Inl e, t1)
                | Inr _ \<Rightarrow> (response_json response, t1)))
      | _ \<Rightarrow> (Inl ValueError, t))"

definition add_helm_repo :: "env \<Rightarrow> string \<Rightarrow> string \<Rightarrow> trace \<Rightarrow> (exn + unit) \<times> trace" where
  "add_helm_repo env name url t =
     (case subprocess_run env [''helm'', ''repo'', ''add'', name, url] False t of
        (Inl e, t1) \<Rightarrow> (Inl (reraise env ''Failed to add Helm repository: '' e), t1)
      | (Inr _, t1) \<Rightarrow>
          (case subprocess_run env [''helm'', ''repo'', ''update''] False t1 of
             (Inl e, t2) \<Rightarrow> (Inl (reraise env ''Failed to add Helm repository: '' e), t2)
           | (Inr _, t2) \<Rightarrow> (Inr (), t2)))"

definition install_cmd :: "string \<Rightarrow> string \<Rightarrow> string \<Rightarrow> string option \<Rightarrow> string list" where
  "install_cmd name release_name namespace version =
     [''helm'', ''install'', release_name, name, ''--namespace'', namespace]
     @ (if truthy version then [''--version'', the version] else [])"

definition install_chart ::
  "env \<Rightarrow> string \<Rightarrow> string \<Rightarrow> string \<Rightarrow> string option \<Rightarrow> trace \<Rightarrow> (exn + unit) \<times> trace" where
  "install_chart env name release_name namespace version t =
     (case subprocess_run env (install_cmd name release_name namespace version) False t of
        (Inl e, t1) \<Rightarrow> (Inl (reraise env ''Failed to install chart: '' e), t1)
      | (Inr _, t1) \<Rightarrow> (Inr (), t1))"

definition list_cmd :: "string option \<Rightarrow> string list" where
  "list_cmd namespace =
     [''helm'', ''list''] @ (if truthy namespace then [''-n'', the namespace] else [])"

definition list_releases :: "env \<Rightarrow> string option \<Rightarrow> trace \<Rightarrow> (exn + string) \<times> trace" where
  "list_releases env namespace t =
     (case subprocess_run env (list_cmd namespace) True t of
        (Inl e, t1) \<Rightarrow> (Inl (reraise env ''Failed to list releases: '' e), t1)
      | (Inr result, t1) \<Rightarrow> (Inr (stdout result), t1))"

definition uninstall_release ::
  "env \<Rightarrow> string \<Rightarrow> string \<Rightarrow> trace \<Rightarrow> (exn + unit) \<times> trace" where
  "uninstall_release env release_name namespace t =
     (case subprocess_run env [''helm'', ''uninstall'', release_name, ''-n'', namespace] False t of
        (Inl e, t1) \<Rightarrow> (Inl (reraise env ''Failed to uninstall release: '' e), t1)
      | (Inr _, t1) \<Rightarrow> (Inr (), t1))"

section \<open>\<open>main\<close>\<close>

text \<open>
  The parsed command line: \<open>args.command\<close> with the attributes of its subcommand.
  \<open>--namespace\<close> of \<open>install\<close> and \<open>uninstall\<close> has the default \<open>"default"\<close>, so it is
  always a string; \<open>--version\<close> and the \<open>--namespace\<close> of \<open>list-releases\<close> are \<open>None\<close>
  when absent. Without a subcommand \<open>args.command\<close> is \<open>None\<close>.
\<close>

datatype args =
    Search string
  | Info string
  | Install string string string "string option"
  | List_releases "string option"
  | Uninstall string string
  | No_command

definition show_chart :: "env \<Rightarrow> json \<Rightarrow> trace \<Rightarrow> (exn + unit) \<times> trace" where
  "show_chart env chart t =
     (case py_item chart ''name'' of
        Inl e \<Rightarrow> (Inl e, t)
      | Inr n \<Rightarrow>
     (case py_item chart ''repository'' of
        Inl e \<Rightarrow> (Inl e, t @ [Print (CHR 0x0A # ''Name: '' @ format_value env n)])
      | Inr r \<Rightarrow>
     (case py_item r ''name'' of
        Inl e \<Rightarrow> (Inl e, t @ [Print (CHR 0x0A # ''Name: '' @ format_value env n)])
      | Inr rn \<Rightarrow>
     (case py_item chart ''description'' of
        Inl e \<Rightarrow> (Inl e, t @ [Print (CHR 0x0A # ''Name: '' @ format_value env n),
                               Print (''Repository: '' @ format_value env rn)])
      | Inr d \<Rightarrow>
     (case py_get chart ''version'' (JStr ''N/A'') of
        Inl e \<Rightarrow> (Inl e, t @ [Print (CHR 0x0A # ''Name: '' @ format_value env n),
                               Print (''Repository: '' @ format_value env rn),
                               Print (''Description: '' @ format_value env d)])
      | Inr v \<Rightarrow> (Inr (), t @ [Print (CHR 0x0A # ''Name: '' @ format_value env n),
                               Print (''Repository: '' @ format_value env rn),
                               Print (''Description: '' @ format_value env d),
                               Print (''Version: '' @ format_value env v)]))))))"

fun show_charts :: "env \<Rightarrow> json list \<Rightarrow> trace \<Rightarrow> (exn + unit) \<times> trace" where
  "show_charts env [] t = (Inr (), t)"
| "show_charts env (chart # charts) t =
     (case show_chart env chart t of
        (Inl e, t1) \<Rightarrow> (Inl e, t1)
      | (Inr _, t1) \<Rightarrow> show_charts env charts t1)"

definition show_details :: "env \<Rightarrow> json \<Rightarrow> trace \<Rightarrow> (exn + unit) \<times> trace" where
  "show_details env details t =
     (case py_item details ''name'' of
        Inl e \<Rightarrow> (Inl e, t)
      | Inr n \<Rightarrow>
     (case py_item details ''description'' of
        Inl e \<Rightarrow> (Inl e, t @ [Print (CHR 0x0A # ''Name: '' @ format_value env n)])
      | Inr d \<Rightarrow>
     (case py_get details ''version'' (JStr ''N/A'') of
        Inl e \<Rightarrow> (Inl e, t @ [Print (CHR 0x0A # ''Name: '' @ format_value env n),
                               Print (''Description: '' @ format_value env d)])
      | Inr v \<Rightarrow>
     (case py_item details ''repository'' of
        Inl e \<Rightarrow> (Inl e, t @ [Print (CHR 0x0A # ''Name: '' @ format_value env n),
                               Print (''Description: '' @ format_value env d),
                               Print (''Version: '' @ format_value env v)])
      | Inr r \<Rightarrow>
     (case py_item r ''url'' of
        Inl e \<Rightarrow> (Inl e, t @ [Print (CHR 0x0A # ''Name: '' @ format_value env n),
                               Print (''Description: '' @ format_value env d),
                               Print (''Version: '' @ format_value env v)])
      | Inr u \<Rightarrow> (Inr (), t @ [Print (CHR 0x0A # ''Name: '' @ format_value env n),
                               Print (''Description: '' @ format_value env d),
                               Print (''Version: '' @ format_value env v),
                               Print (''Repository URL: '' @ format_value env u)]))))))"

text \<open>The body of the \<open>try\<close> block of \<open>main\<close>.\<close>

definition dispatch :: "env \<Rightarrow> args \<Rightarrow> trace \<Rightarrow> (exn + unit) \<times> trace" where
  "dispatch env a t =
     (case a of
        Search keyword \<Rightarrow>
          (case search_charts env keyword t of
             (Inl e, t1) \<Rightarrow> (Inl e, t1)
           | (Inr charts, t1) \<Rightarrow>
               (case py_slice5 charts of
                  Inl e \<Rightarrow> (Inl e, t1)
                | Inr first5 \<Rightarrow> show_charts env first5 t1))
      | Info name \<Rightarrow>
          (case get_chart_details env name t of
             (Inl e, t1) \<Rightarrow> (Inl e, t1)
           | (Inr details, t1) \<Rightarrow> show_details env details t1)
      | Install name release_name namespace version \<Rightarrow>
          (case install_chart env name release_name namespace version t of
             (Inl e, t1) \<Rightarrow> (Inl e, t1)
           | (Inr _, t1) \<Rightarrow>
               (Inr (), t1 @ [Print (''Successfully installed '' @ name @ '' as '' @ release_name)]))
      | List_releases namespace \<Rightarrow>
          (case list_releases env namespace t of
             (Inl e, t1) \<Rightarrow> (Inl e, t1)
           | (Inr out, t1) \<Rightarrow> (Inr (), t1 @ [Print out]))
      | Uninstall release_name namespace \<Rightarrow>
          (case uninstall_release env release_name namespace t of
             (Inl e, t1) \<Rightarrow> (Inl e, t1)
           | (Inr _, t1) \<Rightarrow>
               (Inr (), t1 @ [Print (''Successfully uninstalled '' @ release_name)]))
      | No_command \<Rightarrow> (Inr (), t))"

text \<open>\<open>main\<close>: the \<open>try\<close> block with its handler \<open>except Exception as e\<close>.\<close>

definition main :: "env \<Rightarrow> args \<Rightarrow> trace \<Rightarrow> (exn + unit) \<times> trace" where
  "main env a t =
     (case dispatch env a t of
        (Inl e, t1) \<Rightarrow> (Inr (), t1 @ [Print (''Error: '' @ str_exn env e)])
      | (Inr _, t1) \<Rightarrow> (Inr (), t1))"

text \<open>
  The exit status of the interpreter after \<open>main()\<close>: 0 when it returns, 1 when an
  exception escapes it.
\<close>

definition exit_status :: "(exn + unit) \<Rightarrow> nat" where
  "exit_status r = (case r of Inl _ \<Rightarrow> 1 | Inr _ \<Rightarrow> 0)"

section \<open>Observing a run\<close>

text \<open>The HTTP calls of a trace, and the printed lines that open a search result.\<close>

definition http_calls :: "trace \<Rightarrow> trace" where
  "http_calls t = filter (\<lambda>e. case e of HttpGet u p \<Rightarrow> True | _ \<Rightarrow> False) t"

definition result_headers :: "trace \<Rightarrow> trace" where
  "result_headers t =
     filter (\<lambda>e. case e of Print s \<Rightarrow> take 7 s = CHR 0x0A # ''Name: '' | _ \<Rightarrow> False) t"

text \<open>
  The facade method that each command calls (lines 155, 163, 170, 174 and 177), with
  the value it returns dropped: what is left is whether it raised, and the trace.
\<close>

definition discard :: "(exn + 'a) \<times> trace \<Rightarrow> (exn + unit) \<times> trace" where
  "discard r = (case r of (Inl e, t) \<Rightarrow> (Inl e, t) | (Inr v, t) \<Rightarrow> (Inr (), t))"

definition facade :: "env \<Rightarrow> args \<Rightarrow> trace \<Rightarrow> (exn + unit) \<times> trace" where
  "facade env a t =
     (case a of
        Search keyword \<Rightarrow> discard (search_charts env keyword t)
      | Info name \<Rightarrow> discard (get_chart_details env name t)
      | Install name release_name namespace version \<Rightarrow>
          install_chart env name release_name namespace version t
      | List_releases namespace \<Rightarrow> discard (list_releases env namespace t)
      | Uninstall release_name namespace \<Rightarrow> uninstall_release env release_name namespace t
      | No_command \<Rightarrow> (Inr (), t))"

subsection \<open>Sample worlds\<close>

text \<open>
  \<open>env_up\<close>: the hub answers 200 with an empty object and every command exits with 0.
  \<open>env_down\<close>: the hub is unreachable and every command exits with 1.
  \<open>env_six\<close>: the hub answers a search with six packages.
\<close>

definition env_up :: env where
  "env_up =
     \<lparr> http_get = (\<lambda>t url ps. Reply \<lparr> status_code = 200, json_body = Some (JObj []) \<rparr>),
       run_proc = (\<lambda>t cmd capture. Completed \<lparr> returncode = 0, stdout = ''NAME'' \<rparr>),
       lib_str = (\<lambda>e. ''failure''),
       repr_json = (\<lambda>v. ''value'') \<rparr>"

definition env_down :: env where
  "env_down =
     \<lparr> http_get = (\<lambda>t url ps. Transport_failure),
       run_proc = (\<lambda>t cmd capture. Completed \<lparr> returncode = 1, stdout = [] \<rparr>),
       lib_str = (\<lambda>e. ''failure''),
       repr_json = (\<lambda>v. ''value'') \<rparr>"

definition chart_entry :: "string \<Rightarrow> json" where
  "chart_entry n =
     JObj [(''name'', JStr n), (''repository'', JObj [(''name'', JStr ''bitnami'')]),
           (''description'', JStr ''cache'')]"

definition env_six :: env where
  "env_six =
     \<lparr> http_get = (\<lambda>t url ps. Reply \<lparr> status_code = 200,
         json_body = Some (JObj [(''packages'',
           JArr (map chart_entry [''a'', ''b'', ''c'', ''d'', ''e'', ''f'']))]) \<rparr>),
       run_proc = (\<lambda>t cmd capture. Spawn_failure),
       lib_str = (\<lambda>e. ''failure''),
       repr_json = (\<lambda>v. ''value'') \<rparr>"

text \<open>
  \<open>env_array_body\<close>: the hub answers a search with 200 and the JSON array \<open>[1, 2]\<close>.
  \<open>env_null_packages\<close>: it answers with 200 and the object \<open>{"packages": null}\<close>.
\<close>

definition env_array_body :: env where
  "env_array_body =
     \<lparr> http_get = (\<lambda>t url ps. Reply \<lparr> status_code = 200,
         json_body = Some (JArr [JInt 1, JInt 2]) \<rparr>),
       run_proc = (\<lambda>t cmd capture. Spawn_failure),
       lib_str = (\<lambda>e. ''failure''),
       repr_json = (\<lambda>v. ''value'') \<rparr>"

definition env_null_packages :: env where
  "env_null_packages =
     \<lparr> http_get = (\<lambda>t url ps. Reply \<lparr> status_code = 200,
         json_body = Some (JObj [(''packages'', JNull)]) \<rparr>),
       run_proc = (\<lambda>t cmd capture. Spawn_failure),
       lib_str = (\<lambda>e. ''failure''),
       repr_json = (\<lambda>v. ''value'') \<rparr>"

section \<open>Splitting and traces\<close>

lemma split_str_not_Nil: "split_str c s \<noteq> []"
  by (induction s) (auto split: list.splits)

lemma length_split_str: "length (split_str c s) = Suc (count_list s c)"
  by (induction s) (auto split: list.splits simp: split_str_not_Nil)

lemma split_str_single: "split_str c s = [a] \<Longrightarrow> s = a \<and> c \<notin> set a"
proof (induction s arbitrary: a)
  case Nil
  then show ?case by simp
next
  case (Cons x xs)
  then show ?case by (auto split: if_splits list.splits simp: split_str_not_Nil)
qed

lemma split_str_pair:
  "split_str c s = [a, b] \<Longrightarrow> s = a @ c # b \<and> c \<notin> set a \<and> c \<notin> set b"
proof (induction s arbitrary: a)
  case Nil
  then show ?case by simp
next
  case (Cons x xs)
  show ?case
  proof (cases "x = c")
    case True
    with Cons.prems have "a = []" "split_str c xs = [b]" by auto
    with True split_str_single[of c xs b] show ?thesis by auto
  next
    case False
    with Cons.prems obtain p where "split_str c xs = [p, b]" "a = x # p"
      by (auto split: list.splits)
    with Cons.IH[of p] False show ?thesis by auto
  qed
qed

lemma snd_session_get: "snd (session_get env url ps t) = t @ [HttpGet url ps]"
  by (simp add: session_get_def split: http_result.splits)

lemma snd_subprocess_run: "snd (subprocess_run env cmd cap t) = t @ [Run cmd cap]"
  by (simp add: subprocess_run_def split: proc_result.splits)

lemma snd_search_charts:
  "snd (search_charts env keyword t) =
     t @ [HttpGet (ARTIFACT_HUB_API @ ''/packages/search'') (Some (search_params keyword))]"
  using snd_session_get[of env "ARTIFACT_HUB_API @ ''/packages/search''"
          "Some (search_params keyword)" t]
  by (auto simp: search_charts_def split: prod.splits sum.splits)

lemma show_chart_events:
  "\<exists>evs. snd (show_chart env chart t) = t @ evs \<and> http_calls evs = [] \<and>
         length (result_headers evs) \<le> 1"
  by (simp add: show_chart_def http_calls_def result_headers_def split: sum.splits)

lemma show_charts_events:
  "\<exists>evs. snd (show_charts env charts t) = t @ evs \<and> http_calls evs = [] \<and>
         length (result_headers evs) \<le> length charts"
proof (induction charts arbitrary: t)
  case Nil
  show ?case by (simp add: http_calls_def result_headers_def)
next
  case (Cons c cs)
  obtain e1 where e1: "snd (show_chart env c t) = t @ e1" "http_calls e1 = []"
      "length (result_headers e1) \<le> 1"
    using show_chart_events[of env c t] by blast
  obtain r t1 where st: "show_chart env c t = (r, t1)" by (cases "show_chart env c t")
  with e1 have t1: "t1 = t @ e1" by simp
  show ?case
  proof (cases r)
    case (Inl e)
    with st t1 e1 show ?thesis by auto
  next
    case (Inr u)
    obtain e2 where e2: "snd (show_charts env cs t1) = t1 @ e2" "http_calls e2 = []"
        "length (result_headers e2) \<le> length cs"
      using Cons.IH[of t1] by blast
    have "snd (show_charts env (c # cs) t) = t @ (e1 @ e2)"
      using st Inr t1 e2 by simp
    moreover have "http_calls (e1 @ e2) = []"
      using e1 e2 by (simp add: http_calls_def)
    moreover have "length (result_headers (e1 @ e2)) \<le> length (c # cs)"
      using e1 e2 by (simp add: result_headers_def)
    ultimately show ?thesis by blast
  qed
qed

lemma length_py_slice5: "py_slice5 v = Inr xs \<Longrightarrow> length xs \<le> 5"
  by (auto simp: py_slice5_def split: json.splits)

lemma dispatch_search_events:
  "\<exists>evs. snd (dispatch env (Search keyword) t) =
           t @ HttpGet (ARTIFACT_HUB_API @ ''/packages/search'')
                 (Some (search_params keyword)) # evs \<and>
         http_calls evs = [] \<and> length (result_headers evs) \<le> 5"
proof -
  let ?g = "HttpGet (ARTIFACT_HUB_API @ ''/packages/search'') (Some (search_params keyword))"
  obtain r t1 where sc: "search_charts env keyword t = (r, t1)"
    by (cases "search_charts env keyword t")
  with snd_search_charts[of env keyword t] have t1: "t1 = t @ [?g]" by simp
  have nil: "http_calls [] = []" "length (result_headers []) \<le> 5"
    by (simp_all add: http_calls_def result_headers_def)
  show ?thesis
  proof (cases r)
    case (Inl e)
    with sc t1 have "snd (dispatch env (Search keyword) t) = t @ ?g # []"
      by (simp add: dispatch_def)
    with nil show ?thesis by blast
  next
    case (Inr charts)
    show ?thesis
    proof (cases "py_slice5 charts")
      case (Inl e)
      with sc t1 Inr have "snd (dispatch env (Search keyword) t) = t @ ?g # []"
        by (simp add: dispatch_def)
      with nil show ?thesis by blast
    next
      case sl: (Inr first5)
      obtain evs where evs: "snd (show_charts env first5 t1) = t1 @ evs" "http_calls evs = []"
          "length (result_headers evs) \<le> length first5"
        using show_charts_events[of env first5 t1] by blast
      from sc Inr sl
      have "snd (dispatch env (Search keyword) t) = snd (show_charts env first5 t1)"
        by (simp add: dispatch_def)
      with evs t1 have "snd (dispatch env (Search keyword) t) = t @ ?g # evs" by simp
      moreover have "length (result_headers evs) \<le> 5"
        using evs(3) length_py_slice5[OF sl] by simp
      ultimately show ?thesis using evs(2) by blast
    qed
  qed
qed

lemma snd_main:
  "snd (main env a t) =
     (case fst (dispatch env a t) of
        Inl e \<Rightarrow> snd (dispatch env a t) @ [Print (''Error: '' @ str_exn env e)]
      | Inr u \<Rightarrow> snd (dispatch env a t))"
  by (simp add: main_def split: prod.splits sum.splits)

lemma error_line_no_header: "result_headers [Print (''Error: '' @ m)] = []"
  by (simp add: result_headers_def)

lemma error_line_no_call: "http_calls [Print m] = []"
  by (simp add: http_calls_def)

lemma discard_Inl: "discard r = (Inl e, t1) \<Longrightarrow> r = (Inl e, t1)"
  by (auto simp: discard_def split: prod.splits sum.splits)

lemma search_six:
  "search_charts env_six ''redis'' [] =
     (Inr (JArr (map chart_entry [''a'', ''b'', ''c'', ''d'', ''e'', ''f''])),
      [HttpGet (ARTIFACT_HUB_API @ ''/packages/search'') (Some (search_params ''redis''))])"
  by (simp add: search_charts_def session_get_def env_six_def raise_for_status_def
        response_json_def py_get_def)

section \<open>Chart references\<close>

text \<open>
  Claim C1. For every string given to \<open>get_chart_details\<close>: when it has no \<open>/\<close> or more
  than one, the operation raises (the unpacking of the split fails) and the trace is
  unchanged, so no network call was issued. When it has exactly one \<open>/\<close>, the split
  gives the repository part and the chart part, and the one call issued is a GET to
  the details endpoint of that repository and that chart.
\<close>

theorem get_chart_details_separator:
  "(count_list name (CHR ''/'') \<noteq> 1 \<longrightarrow> get_chart_details env name t = (Inl ValueError, t)) \<and>
   (count_list name (CHR ''/'') = 1 \<longrightarrow>
      (\<exists>repo chart. split_str (CHR ''/'') name = [repo, chart] \<and> name = repo @ ''/'' @ chart \<and>
         CHR ''/'' \<notin> set repo \<and> CHR ''/'' \<notin> set chart \<and>
         snd (get_chart_details env name t) =
           t @ [HttpGet (ARTIFACT_HUB_API @ ''/packages/helm/'' @ repo @ ''/'' @ chart) None]))"
proof (intro conjI impI)
  assume "count_list name (CHR ''/'') \<noteq> 1"
  then have "length (split_str (CHR ''/'') name) \<noteq> 2"
    by (simp add: length_split_str)
  then show "get_chart_details env name t = (Inl ValueError, t)"
    by (auto simp: get_chart_details_def split: list.splits)
next
  assume "count_list name (CHR ''/'') = 1"
  then have "length (split_str (CHR ''/'') name) = 2"
    by (simp add: length_split_str)
  then obtain repo chart where sp: "split_str (CHR ''/'') name = [repo, chart]"
    by (auto simp: length_Suc_conv numeral_2_eq_2)
  from split_str_pair[OF sp]
  have nm: "name = repo @ ''/'' @ chart" "CHR ''/'' \<notin> set repo" "CHR ''/'' \<notin> set chart"
    by auto
  have "snd (get_chart_details env name t) =
          t @ [HttpGet (ARTIFACT_HUB_API @ ''/packages/helm/'' @ repo @ ''/'' @ chart) None]"
    using snd_session_get[of env "ARTIFACT_HUB_API @ ''/packages/helm/'' @ repo @ ''/'' @ chart"
            None t]
    by (auto simp: get_chart_details_def sp split: prod.splits sum.splits)
  with sp nm
  show "\<exists>repo chart. split_str (CHR ''/'') name = [repo, chart] \<and> name = repo @ ''/'' @ chart \<and>
         CHR ''/'' \<notin> set repo \<and> CHR ''/'' \<notin> set chart \<and>
         snd (get_chart_details env name t) =
           t @ [HttpGet (ARTIFACT_HUB_API @ ''/packages/helm/'' @ repo @ ''/'' @ chart) None]"
    by blast
qed

theorem get_chart_details_separator_witness:
  "count_list ''bitnami'' (CHR ''/'') \<noteq> 1 \<and>
   get_chart_details env_up ''bitnami'' [] = (Inl ValueError, []) \<and>
   count_list ''bitnami/redis'' (CHR ''/'') = 1 \<and>
   split_str (CHR ''/'') ''bitnami/redis'' = [''bitnami'', ''redis''] \<and>
   snd (get_chart_details env_up ''bitnami/redis'' []) =
     [HttpGet ''https://artifacthub.io/api/v1/packages/helm/bitnami/redis'' None]"
  using get_chart_details_separator [of "''bitnami''" env_up "[]"]
        get_chart_details_separator [of "''bitnami/redis''" env_up "[]"]
  by (simp add: ARTIFACT_HUB_API_def)

section \<open>Search\<close>

text \<open>
  Claim C2. For every keyword, \<open>search_charts\<close> adds exactly one event to the trace: a
  GET to the search endpoint with the parameters \<open>kind=0\<close>, \<open>ts_query=<keyword>\<close> and
  \<open>sort=relevance\<close>. The whole \<open>search\<close> command issues that one HTTP call and no
  other, and prints at most five result headers; when the operation returns a list,
  what is displayed is its first five entries, however long the list is.
\<close>

theorem search_one_get_top5:
  "snd (search_charts env keyword t) =
      t @ [HttpGet (ARTIFACT_HUB_API @ ''/packages/search'')
             (Some [(''kind'', ''0''), (''ts_query'', keyword), (''sort'', ''relevance'')])] \<and>
   http_calls (drop (length t) (snd (main env (Search keyword) t))) =
      [HttpGet (ARTIFACT_HUB_API @ ''/packages/search'')
             (Some [(''kind'', ''0''), (''ts_query'', keyword), (''sort'', ''relevance'')])] \<and>
   length (result_headers (drop (length t) (snd (main env (Search keyword) t)))) \<le> 5 \<and>
   (search_charts env keyword t = (Inr (JArr charts), t1) \<longrightarrow>
      dispatch env (Search keyword) t = show_charts env (take 5 charts) t1)"
proof -
  let ?g = "HttpGet (ARTIFACT_HUB_API @ ''/packages/search'') (Some (search_params keyword))"
  obtain evs where evs: "snd (dispatch env (Search keyword) t) = t @ ?g # evs"
      "http_calls evs = []" "length (result_headers evs) \<le> 5"
    using dispatch_search_events[of env keyword t] by blast
  have g: "http_calls [?g] = [?g]" "result_headers [?g] = []"
    by (simp_all add: http_calls_def result_headers_def)
  have app: "\<And>xs ys. http_calls (xs @ ys) = http_calls xs @ http_calls ys"
       "\<And>xs ys. result_headers (xs @ ys) = result_headers xs @ result_headers ys"
    by (simp_all add: http_calls_def result_headers_def)
  obtain tl where tl: "snd (main env (Search keyword) t) = t @ ([?g] @ evs @ tl)"
      "http_calls tl = []" "result_headers tl = []"
  proof (cases "fst (dispatch env (Search keyword) t)")
    case (Inl e)
    then have "snd (main env (Search keyword) t) =
                 t @ ([?g] @ evs @ [Print (''Error: '' @ str_exn env e)])"
      using evs(1) by (simp add: snd_main)
    then show ?thesis using that error_line_no_header error_line_no_call by blast
  next
    case (Inr u)
    then have "snd (main env (Search keyword) t) = t @ ([?g] @ evs @ [])"
      using evs(1) by (simp add: snd_main)
    moreover have "http_calls [] = []" "result_headers [] = []"
      by (simp_all add: http_calls_def result_headers_def)
    ultimately show ?thesis using that by blast
  qed
  have 1: "snd (search_charts env keyword t) = t @ [?g]" by (rule snd_search_charts)
  have dr: "drop (length t) (snd (main env (Search keyword) t)) = [?g] @ evs @ tl"
    by (simp add: tl(1))
  have 2: "http_calls (drop (length t) (snd (main env (Search keyword) t))) = [?g]"
    by (simp only: dr app g evs(2) tl(2)) simp
  have 3: "length (result_headers (drop (length t) (snd (main env (Search keyword) t)))) \<le> 5"
    using evs(3) by (simp only: dr app g tl(3)) simp
  have 4: "search_charts env keyword t = (Inr (JArr charts), t1) \<longrightarrow>
      dispatch env (Search keyword) t = show_charts env (take 5 charts) t1"
    by (simp add: dispatch_def py_slice5_def)
  from 1 2 3 4 show ?thesis by (simp add: search_params_def)
qed

text \<open>Six packages are returned; the five first are displayed.\<close>

theorem search_one_get_top5_witness:
  "search_charts env_six ''redis'' [] =
     (Inr (JArr (map chart_entry [''a'', ''b'', ''c'', ''d'', ''e'', ''f''])),
      [HttpGet (ARTIFACT_HUB_API @ ''/packages/search'') (Some (search_params ''redis''))]) \<and>
   result_headers (snd (dispatch env_six (Search ''redis'') [])) =
     [Print (CHR 0x0A # ''Name: a''), Print (CHR 0x0A # ''Name: b''),
      Print (CHR 0x0A # ''Name: c''), Print (CHR 0x0A # ''Name: d''),
      Print (CHR 0x0A # ''Name: e'')]"
proof -
  note h = search_six
  from search_one_get_top5 [of env_six "''redis''" "[]"
          "map chart_entry [''a'', ''b'', ''c'', ''d'', ''e'', ''f'']"
          "[HttpGet (ARTIFACT_HUB_API @ ''/packages/search'') (Some (search_params ''redis''))]"] h
  have d: "dispatch env_six (Search ''redis'') [] =
           show_charts env_six (take 5 (map chart_entry [''a'', ''b'', ''c'', ''d'', ''e'', ''f'']))
             [HttpGet (ARTIFACT_HUB_API @ ''/packages/search'') (Some (search_params ''redis''))]"
    by blast
  have "result_headers (snd (dispatch env_six (Search ''redis'') [])) =
     [Print (CHR 0x0A # ''Name: a''), Print (CHR 0x0A # ''Name: b''),
      Print (CHR 0x0A # ''Name: c''), Print (CHR 0x0A # ''Name: d''),
      Print (CHR 0x0A # ''Name: e'')]"
    unfolding d
    by (simp add: show_chart_def chart_entry_def py_item_def py_get_def format_value_def
          result_headers_def)
  with h show ?thesis by blast
qed

text \<open>
  Claim C5, amended. When the search response passes \<open>raise_for_status\<close> and its JSON
  body is an object without the key \<open>packages\<close>, \<open>search_charts\<close> returns the empty
  list and does not raise.
\<close>

theorem search_charts_missing_packages:
  "http_get env t (ARTIFACT_HUB_API @ ''/packages/search'') (Some (search_params keyword)) = Reply r \<Longrightarrow>
   \<not> (400 \<le> status_code r \<and> status_code r < 600) \<Longrightarrow>
   json_body r = Some (JObj items) \<Longrightarrow>
   map_of items ''packages'' = None \<Longrightarrow>
   fst (search_charts env keyword t) = Inr (JArr [])"
  by (simp add: search_charts_def session_get_def raise_for_status_def response_json_def py_get_def)

theorem search_charts_missing_packages_witness:
  "http_get env_up [] (ARTIFACT_HUB_API @ ''/packages/search'') (Some (search_params ''redis''))
      = Reply \<lparr> status_code = 200, json_body = Some (JObj []) \<rparr> \<and>
   \<not> (400 \<le> status_code \<lparr> status_code = 200, json_body = Some (JObj []) \<rparr> \<and>
       status_code \<lparr> status_code = 200, json_body = Some (JObj []) \<rparr> < 600) \<and>
   json_body \<lparr> status_code = 200, json_body = Some (JObj []) \<rparr> = Some (JObj []) \<and>
   map_of ([] :: (string \<times> json) list) ''packages'' = None \<and>
   fst (search_charts env_up ''redis'' []) = Inr (JArr [])"
proof -
  let ?r = "\<lparr> status_code = 200, json_body = Some (JObj []) \<rparr>"
  have h1: "http_get env_up [] (ARTIFACT_HUB_API @ ''/packages/search'') (Some (search_params ''redis'')) = Reply ?r"
    by (simp add: env_up_def)
  have h2: "\<not> (400 \<le> status_code ?r \<and> status_code ?r < 600)" by simp
  have h3: "json_body ?r = Some (JObj [])" by simp
  have h4: "map_of ([] :: (string \<times> json) list) ''packages'' = None" by simp
  from search_charts_missing_packages [OF h1 h2 h3 h4] h1 h2 h3 h4 show ?thesis by blast
qed

text \<open>
  Two bodies without a \<open>packages\<close> list, each in a response with status 200. The array
  \<open>[1, 2]\<close> has no method \<open>get\<close>: the operation raises, and \<open>main\<close> prints the error.
  In \<open>{"packages": null}\<close> the key is present with no list under it: the operation
  returns \<open>None\<close>, not the empty list. The claim as the specification words it fails
  on both.
\<close>

theorem search_charts_missing_packages_counterexample:
  "fst (search_charts env_array_body ''redis'' []) = Inl AttributeError \<and>
   fst (search_charts env_array_body ''redis'' []) \<noteq> Inr (JArr []) \<and>
   snd (main env_array_body (Search ''redis'') []) =
     [HttpGet ''https://artifacthub.io/api/v1/packages/search''
        (Some [(''kind'', ''0''), (''ts_query'', ''redis''), (''sort'', ''relevance'')]),
      Print ''Error: failure''] \<and>
   fst (search_charts env_null_packages ''redis'' []) = Inr JNull \<and>
   fst (search_charts env_null_packages ''redis'' []) \<noteq> Inr (JArr [])"
  by (simp add: search_charts_def session_get_def raise_for_status_def response_json_def
        py_get_def env_array_body_def env_null_packages_def main_def dispatch_def
        str_exn_def ARTIFACT_HUB_API_def search_params_def)

section \<open>Commands given to the \<open>helm\<close> binary\<close>

text \<open>
  Claim C3, amended. Without a version (\<open>None\<close>) the command that \<open>install_chart\<close>
  invokes is exactly \<open>helm install <release> <chart> --namespace <namespace>\<close>: it has no
  version flag. With a version that is not the empty string, \<open>--version\<close> and the
  version are the two last arguments, after the chart reference.
\<close>

theorem install_chart_version_flag:
  "snd (install_chart env name release_name namespace None t) =
     t @ [Run [''helm'', ''install'', release_name, name, ''--namespace'', namespace] False] \<and>
   (version \<noteq> [] \<longrightarrow>
      snd (install_chart env name release_name namespace (Some version) t) =
        t @ [Run [''helm'', ''install'', release_name, name, ''--namespace'', namespace,
                  ''--version'', version] False])"
  using snd_subprocess_run [of env "install_cmd name release_name namespace None" False t]
        snd_subprocess_run [of env "install_cmd name release_name namespace (Some version)" False t]
  by (auto simp: install_chart_def install_cmd_def truthy_def split: prod.splits sum.splits)

theorem install_chart_version_flag_witness:
  "''1.2.3'' \<noteq> [] \<and>
   snd (install_chart env_up ''bitnami/redis'' ''r1'' ''default'' (Some ''1.2.3'') []) =
     [Run [''helm'', ''install'', ''r1'', ''bitnami/redis'', ''--namespace'', ''default'',
           ''--version'', ''1.2.3''] False]"
  using install_chart_version_flag [of env_up "''bitnami/redis''" "''r1''" "''default''" "[]" "''1.2.3''"]
  by simp

text \<open>
  A version is supplied, the empty string, and the command has no \<open>--version\<close>: the
  claim as the specification words it fails here.
\<close>

theorem install_chart_supplied_version_counterexample:
  "snd (install_chart env_up ''bitnami/redis'' ''r1'' ''default'' (Some '''') []) =
     [Run [''helm'', ''install'', ''r1'', ''bitnami/redis'', ''--namespace'', ''default''] False] \<and>
   ''--version'' \<notin> set [''helm'', ''install'', ''r1'', ''bitnami/redis'', ''--namespace'', ''default'']"
  by (simp add: install_chart_def install_cmd_def truthy_def subprocess_run_def env_up_def)

text \<open>
  Claim C4. When the first command of \<open>add_helm_repo\<close> (\<open>helm repo add\<close>) exits with a
  status other than 0, the operation raises with that command as the only event added
  to the trace: \<open>helm repo update\<close> is not attempted. When it exits with 0, the update
  runs after it, in that order.
\<close>

theorem add_helm_repo_fail_fast:
  "run_proc env t [''helm'', ''repo'', ''add'', name, url] False = Completed p \<Longrightarrow>
   (returncode p \<noteq> 0 \<longrightarrow>
      add_helm_repo env name url t =
        (Inl (Exception (''Failed to add Helm repository: '' @
                lib_str env (CalledProcessError [''helm'', ''repo'', ''add'', name, url] (returncode p)))),
         t @ [Run [''helm'', ''repo'', ''add'', name, url] False])) \<and>
   (returncode p = 0 \<longrightarrow>
      snd (add_helm_repo env name url t) =
        t @ [Run [''helm'', ''repo'', ''add'', name, url] False,
             Run [''helm'', ''repo'', ''update''] False])"
  using snd_subprocess_run [of env "[''helm'', ''repo'', ''update'']" False
          "t @ [Run [''helm'', ''repo'', ''add'', name, url] False]"]
  by (auto simp: add_helm_repo_def subprocess_run_def reraise_def str_exn_def
           split: prod.splits sum.splits proc_result.splits)

theorem add_helm_repo_fail_fast_witness:
  "run_proc env_down [] [''helm'', ''repo'', ''add'', ''bitnami'', ''https://charts.bitnami.com/bitnami''] False
      = Completed \<lparr> returncode = 1, stdout = [] \<rparr> \<and>
   returncode \<lparr> returncode = 1, stdout = [] \<rparr> \<noteq> 0 \<and>
   add_helm_repo env_down ''bitnami'' ''https://charts.bitnami.com/bitnami'' [] =
     (Inl (Exception ''Failed to add Helm repository: failure''),
      [Run [''helm'', ''repo'', ''add'', ''bitnami'', ''https://charts.bitnami.com/bitnami''] False])"
proof -
  have h: "run_proc env_down [] [''helm'', ''repo'', ''add'', ''bitnami'', ''https://charts.bitnami.com/bitnami''] False
      = Completed \<lparr> returncode = 1, stdout = [] \<rparr>"
    by (simp add: env_down_def)
  from add_helm_repo_fail_fast [OF h] h show ?thesis
    by (simp add: env_down_def)
qed

text \<open>
  Claim C6. \<open>uninstall_release("r1", "default")\<close> invokes \<open>helm\<close> with exactly the
  arguments \<open>uninstall r1 -n default\<close>, in this order; for every release name and
  namespace the arguments are \<open>uninstall\<close>, the release name, \<open>-n\<close>, the namespace.
\<close>

theorem uninstall_release_command:
  "snd (uninstall_release env ''r1'' ''default'' t) =
      t @ [Run [''helm'', ''uninstall'', ''r1'', ''-n'', ''default''] False] \<and>
   snd (uninstall_release env release_name namespace t) =
      t @ [Run [''helm'', ''uninstall'', release_name, ''-n'', namespace] False]"
  using snd_subprocess_run [of env "[''helm'', ''uninstall'', ''r1'', ''-n'', ''default'']" False t]
        snd_subprocess_run [of env "[''helm'', ''uninstall'', release_name, ''-n'', namespace]" False t]
  by (auto simp: uninstall_release_def split: prod.splits sum.splits)

text \<open>
  Claim C7. \<open>list_releases(None)\<close> invokes \<open>helm list\<close> with no namespace flag and
  \<open>list_releases("ns1")\<close> invokes \<open>helm list -n ns1\<close>; more generally, for every
  namespace that is not the empty string the command is \<open>helm list -n <namespace>\<close>,
  with the namespace that was given. In each case, when the command exits with 0, the
  operation returns its captured standard output unchanged.
\<close>

theorem list_releases_namespace_flag:
  "snd (list_releases env None t) = t @ [Run [''helm'', ''list''] True] \<and>
   snd (list_releases env (Some ''ns1'') t) = t @ [Run [''helm'', ''list'', ''-n'', ''ns1''] True] \<and>
   (ns \<noteq> [] \<longrightarrow>
      snd (list_releases env (Some ns) t) = t @ [Run [''helm'', ''list'', ''-n'', ns] True]) \<and>
   (run_proc env t [''helm'', ''list''] True = Completed p \<and> returncode p = 0 \<longrightarrow>
      fst (list_releases env None t) = Inr (stdout p)) \<and>
   (run_proc env t [''helm'', ''list'', ''-n'', ''ns1''] True = Completed q \<and> returncode q = 0 \<longrightarrow>
      fst (list_releases env (Some ''ns1'') t) = Inr (stdout q)) \<and>
   (ns \<noteq> [] \<and> run_proc env t [''helm'', ''list'', ''-n'', ns] True = Completed r \<and>
    returncode r = 0 \<longrightarrow>
      fst (list_releases env (Some ns) t) = Inr (stdout r))"
proof -
  have cmd_None: "list_cmd None = [''helm'', ''list'']"
    by (simp add: list_cmd_def truthy_def)
  have cmd_Some: "\<And>n. n \<noteq> [] \<Longrightarrow> list_cmd (Some n) = [''helm'', ''list'', ''-n'', n]"
    by (simp add: list_cmd_def truthy_def)
  have tr: "\<And>n. snd (list_releases env n t) = t @ [Run (list_cmd n) True]"
  proof -
    fix n
    show "snd (list_releases env n t) = t @ [Run (list_cmd n) True]"
      using snd_subprocess_run [of env "list_cmd n" True t]
      by (auto simp: list_releases_def split: prod.splits sum.splits)
  qed
  have out: "\<And>n c. run_proc env t (list_cmd n) True = Completed c \<Longrightarrow> returncode c = 0 \<Longrightarrow>
               fst (list_releases env n t) = Inr (stdout c)"
    by (simp add: list_releases_def subprocess_run_def)
  have 1: "snd (list_releases env None t) = t @ [Run [''helm'', ''list''] True]"
    using tr [of None] by (simp add: cmd_None)
  have 2: "snd (list_releases env (Some ''ns1'') t) =
             t @ [Run [''helm'', ''list'', ''-n'', ''ns1''] True]"
    using tr [of "Some ''ns1''"] by (simp add: cmd_Some)
  have 3: "ns \<noteq> [] \<longrightarrow>
      snd (list_releases env (Some ns) t) = t @ [Run [''helm'', ''list'', ''-n'', ns] True]"
    using tr [of "Some ns"] by (simp add: cmd_Some)
  have 4: "run_proc env t [''helm'', ''list''] True = Completed p \<and> returncode p = 0 \<longrightarrow>
      fst (list_releases env None t) = Inr (stdout p)"
    using out [of None p] by (simp add: cmd_None)
  have 5: "run_proc env t [''helm'', ''list'', ''-n'', ''ns1''] True = Completed q \<and>
      returncode q = 0 \<longrightarrow> fst (list_releases env (Some ''ns1'') t) = Inr (stdout q)"
    using out [of "Some ''ns1''" q] by (simp add: cmd_Some)
  have 6: "ns \<noteq> [] \<and> run_proc env t [''helm'', ''list'', ''-n'', ns] True = Completed r \<and>
      returncode r = 0 \<longrightarrow> fst (list_releases env (Some ns) t) = Inr (stdout r)"
    using out [of "Some ns" r] by (auto simp: cmd_Some)
  from 1 2 3 4 5 6 show ?thesis by blast
qed

theorem list_releases_namespace_flag_witness:
  "''monitoring'' \<noteq> [] \<and>
   run_proc env_up [] [''helm'', ''list''] True = Completed \<lparr> returncode = 0, stdout = ''NAME'' \<rparr> \<and>
   run_proc env_up [] [''helm'', ''list'', ''-n'', ''ns1''] True = Completed \<lparr> returncode = 0, stdout = ''NAME'' \<rparr> \<and>
   run_proc env_up [] [''helm'', ''list'', ''-n'', ''monitoring''] True = Completed \<lparr> returncode = 0, stdout = ''NAME'' \<rparr> \<and>
   list_releases env_up None [] = (Inr ''NAME'', [Run [''helm'', ''list''] True]) \<and>
   list_releases env_up (Some ''ns1'') [] = (Inr ''NAME'', [Run [''helm'', ''list'', ''-n'', ''ns1''] True]) \<and>
   list_releases env_up (Some ''monitoring'') [] =
     (Inr ''NAME'', [Run [''helm'', ''list'', ''-n'', ''monitoring''] True])"
proof -
  let ?p = "\<lparr> returncode = 0, stdout = ''NAME'' \<rparr>"
  have h1: "run_proc env_up [] [''helm'', ''list''] True = Completed ?p"
    and h2: "run_proc env_up [] [''helm'', ''list'', ''-n'', ''ns1''] True = Completed ?p"
    and h3: "run_proc env_up [] [''helm'', ''list'', ''-n'', ''monitoring''] True = Completed ?p"
    by (simp_all add: env_up_def)
  from list_releases_namespace_flag [of env_up "[]" "''monitoring''" ?p ?p ?p] h1 h2 h3
  show ?thesis by (simp add: prod_eq_iff)
qed

text \<open>
  Claim C9. An install request whose version is the empty string runs as one without a
  version: the same outcome and the same command, which has no \<open>--version\<close>.
\<close>

theorem install_chart_empty_version:
  "install_chart env name release_name namespace (Some '''') t =
     install_chart env name release_name namespace None t \<and>
   snd (install_chart env name release_name namespace (Some '''') t) =
     t @ [Run [''helm'', ''install'', release_name, name, ''--namespace'', namespace] False]"
  using snd_subprocess_run [of env "install_cmd name release_name namespace None" False t]
  by (auto simp: install_chart_def install_cmd_def truthy_def split: prod.splits sum.splits)

text \<open>
  Claim C10. \<open>list_releases\<close> with the empty string as namespace runs as
  \<open>list_releases(None)\<close>: in both cases the command is \<open>helm list\<close>, without \<open>-n\<close>.
\<close>

theorem list_releases_empty_namespace:
  "list_releases env (Some '''') t = list_releases env None t \<and>
   snd (list_releases env (Some '''') t) = t @ [Run [''helm'', ''list''] True] \<and>
   snd (list_releases env None t) = t @ [Run [''helm'', ''list''] True]"
  using snd_subprocess_run [of env "list_cmd None" True t]
  by (auto simp: list_releases_def list_cmd_def truthy_def split: prod.splits sum.splits)

section \<open>Errors at the top level\<close>

text \<open>
  Claim C8. For every command, \<open>main\<close> returns normally, so the exit status of the
  process is 0; and whenever the facade operation of the command raises an error, the
  run of \<open>main\<close> is the trace of that operation followed by one printed line, which
  is \<open>Error: \<close> followed by the text of the error.
\<close>

theorem main_swallows_errors:
  "fst (main env a t) = Inr () \<and> exit_status (fst (main env a t)) = 0 \<and>
   (facade env a t = (Inl e, t1) \<longrightarrow>
      main env a t = (Inr (), t1 @ [Print (''Error: '' @ str_exn env e)]))"
proof (intro conjI impI)
  show r: "fst (main env a t) = Inr ()"
    by (simp add: main_def split: prod.splits sum.splits)
  then show "exit_status (fst (main env a t)) = 0"
    by (simp add: exit_status_def)
  assume f: "facade env a t = (Inl e, t1)"
  have "dispatch env a t = (Inl e, t1)"
  proof (cases a)
    case (Search k)
    with f have "search_charts env k t = (Inl e, t1)"
      by (simp add: facade_def discard_Inl)
    with Search show ?thesis by (simp add: dispatch_def)
  next
    case (Info n)
    with f have "get_chart_details env n t = (Inl e, t1)"
      by (simp add: facade_def discard_Inl)
    with Info show ?thesis by (simp add: dispatch_def)
  next
    case (Install n r ns v)
    with f show ?thesis by (simp add: facade_def dispatch_def)
  next
    case (List_releases ns)
    with f have "list_releases env ns t = (Inl e, t1)"
      by (simp add: facade_def discard_Inl)
    with List_releases show ?thesis by (simp add: dispatch_def)
  next
    case (Uninstall r ns)
    with f show ?thesis by (simp add: facade_def dispatch_def)
  next
    case No_command
    with f show ?thesis by (simp add: facade_def)
  qed
  then show "main env a t = (Inr (), t1 @ [Print (''Error: '' @ str_exn env e)])"
    by (simp add: main_def)
qed

theorem main_swallows_errors_witness:
  "facade env_down (Uninstall ''r1'' ''default'') [] =
     (Inl (Exception ''Failed to uninstall release: failure''),
      [Run [''helm'', ''uninstall'', ''r1'', ''-n'', ''default''] False]) \<and>
   main env_down (Uninstall ''r1'' ''default'') [] =
     (Inr (), [Run [''helm'', ''uninstall'', ''r1'', ''-n'', ''default''] False,
               Print ''Error: Failed to uninstall release: failure'']) \<and>
   facade env_down (Info ''bitnami'') [] = (Inl ValueError, []) \<and>
   main env_down (Info ''bitnami'') [] = (Inr (), [Print ''Error: failure'']) \<and>
   facade env_down (Search ''redis'') [] =
     (Inl RequestException, [HttpGet ''https://artifacthub.io/api/v1/packages/search''
        (Some [(''kind'', ''0''), (''ts_query'', ''redis''), (''sort'', ''relevance'')])]) \<and>
   main env_down (Search ''redis'') [] =
     (Inr (), [HttpGet ''https://artifacthub.io/api/v1/packages/search''
        (Some [(''kind'', ''0''), (''ts_query'', ''redis''), (''sort'', ''relevance'')]),
               Print ''Error: failure''])"
proof -
  have h1: "facade env_down (Uninstall ''r1'' ''default'') [] =
     (Inl (Exception ''Failed to uninstall release: failure''),
      [Run [''helm'', ''uninstall'', ''r1'', ''-n'', ''default''] False])"
    by (simp add: facade_def uninstall_release_def subprocess_run_def env_down_def
          reraise_def str_exn_def)
  have h2: "facade env_down (Info ''bitnami'') [] = (Inl ValueError, [])"
    by (simp add: facade_def discard_def get_chart_details_def)
  have h3: "facade env_down (Search ''redis'') [] =
     (Inl RequestException, [HttpGet ''https://artifacthub.io/api/v1/packages/search''
        (Some [(''kind'', ''0''), (''ts_query'', ''redis''), (''sort'', ''relevance'')])])"
    by (simp add: facade_def discard_def search_charts_def session_get_def env_down_def
          ARTIFACT_HUB_API_def search_params_def)
  from main_swallows_errors [of env_down "Uninstall ''r1'' ''default''" "[]"] h1
  have m1: "main env_down (Uninstall ''r1'' ''default'') [] =
     (Inr (), [Run [''helm'', ''uninstall'', ''r1'', ''-n'', ''default''] False,
               Print ''Error: Failed to uninstall release: failure''])"
    by (simp add: str_exn_def)
  from main_swallows_errors [of env_down "Info ''bitnami''" "[]"] h2
  have m2: "main env_down (Info ''bitnami'') [] = (Inr (), [Print ''Error: failure''])"
    by (simp add: str_exn_def env_down_def)
  from main_swallows_errors [of env_down "Search ''redis''" "[]"] h3
  have m3: "main env_down (Search ''redis'') [] =
     (Inr (), [HttpGet ''https://artifacthub.io/api/v1/packages/search''
        (Some [(''kind'', ''0''), (''ts_query'', ''redis''), (''sort'', ''relevance'')]),
               Print ''Error: failure''])"
    by (simp add: str_exn_def env_down_def)
  from h1 h2 h3 m1 m2 m3 show ?thesis by blast
qed

end
